theory Spec2Isabelle
  imports Main
begin

section \<open>JavaScript values and built-ins read by the weather server\<close>

text \<open>
  The server (\<^verbatim>\<open>src/index.ts\<close>) receives whatever JSON the upstream service sends:
  the cast \<^verbatim>\<open>(await response.json()) as T\<close> checks nothing at run time. A parsed
  body is therefore a value of \<open>json\<close>, an object being the list of its own properties
  (one entry per key, as \<^verbatim>\<open>JSON.parse\<close> leaves it). A number is held as the text that
  \<^verbatim>\<open>Number::toString\<close> gives for it, so both zeros are \<open>JNum ''0''\<close>; JSON has no NaN.
  Strings are \<open>char list\<close>: the model covers code units in the ASCII range, where
  \<^verbatim>\<open>length\<close> counts what JavaScript counts.
\<close>

datatype json =
    JNull
  | JBool bool
  | JNum string
  | JStr string
  | JArr "json list"
  | JObj "(string \<times> json) list"

text \<open>A JavaScript value met by the program is a JSON value or \<^verbatim>\<open>undefined\<close> (\<open>None\<close>).\<close>

type_synonym jsval = "json option"

datatype error =
    TypeError
  | FetchError
  | HttpError nat
  | SyntaxError
  | InvalidParams

abbreviation nl :: char where
  "nl \<equiv> CHR 0x0A"

text \<open>\<^verbatim>\<open>ToBoolean\<close>: the test behind \<^verbatim>\<open>!x\<close> and \<^verbatim>\<open>x || y\<close>.\<close>

fun truthy :: "jsval \<Rightarrow> bool" where
  "truthy None = False"
| "truthy (Some JNull) = False"
| "truthy (Some (JBool b)) = b"
| "truthy (Some (JNum r)) = (r \<noteq> ''0'')"
| "truthy (Some (JStr s)) = (s \<noteq> [])"
| "truthy (Some (JArr xs)) = True"
| "truthy (Some (JObj kvs)) = True"

text \<open>\<^verbatim>\<open>a || b\<close>\<close>

definition lor :: "jsval \<Rightarrow> jsval \<Rightarrow> jsval" where
  "lor a b = (if truthy a then a else b)"

text \<open>
  The property read \<^verbatim>\<open>v.p\<close> for the names the program reads this way (\<^verbatim>\<open>features\<close>,
  \<^verbatim>\<open>properties\<close>, \<^verbatim>\<open>event\<close>, \<^verbatim>\<open>areaDesc\<close>, \<^verbatim>\<open>severity\<close>, \<^verbatim>\<open>status\<close>,
  \<^verbatim>\<open>headline\<close>): no prototype defines any of them, so only an object's own property
  can answer. Reading a property of \<^verbatim>\<open>undefined\<close> or \<^verbatim>\<open>null\<close> throws a TypeError.
\<close>

fun Get :: "jsval \<Rightarrow> string \<Rightarrow> error + jsval" where
  "Get None p = Inl TypeError"
| "Get (Some JNull) p = Inl TypeError"
| "Get (Some (JObj kvs)) p = Inr (map_of kvs p)"
| "Get (Some v) p = Inr None"

text \<open>
  \<^verbatim>\<open>Array.prototype.join\<close> on an array of strings, as the standard's loop: the separator
  goes before every element but the first.
\<close>

definition join :: "string \<Rightarrow> string list \<Rightarrow> string" where
  "join sep xs =
     snd (fold (\<lambda>x (k, R). (Suc k, (if 0 < k then R @ sep else R) @ x)) xs (0::nat, []))"

text \<open>Evaluating a list of computations in order; the first throw ends it.\<close>

fun collect :: "(error + 'a) list \<Rightarrow> error + 'a list" where
  "collect [] = Inr []"
| "collect (Inl e # rs) = Inl e"
| "collect (Inr x # rs) = (case collect rs of Inl e \<Rightarrow> Inl e | Inr xs \<Rightarrow> Inr (x # xs))"

text \<open>
  \<^verbatim>\<open>ToString\<close>, which a template literal applies to each \<^verbatim>\<open>${...}\<close>. An array joins
  its elements with commas (\<^verbatim>\<open>null\<close> elements as the empty string). An object gives
  \<^verbatim>\<open>[object Object]\<close>, unless it has an own \<^verbatim>\<open>toString\<close> property: a JSON value is not
  callable, the inherited \<^verbatim>\<open>valueOf\<close> returns the object, and the conversion throws.
\<close>

fun ToString :: "jsval \<Rightarrow> error + string" where
  "ToString None = Inr ''undefined''"
| "ToString (Some JNull) = Inr ''null''"
| "ToString (Some (JBool b)) = Inr (if b then ''true'' else ''false'')"
| "ToString (Some (JNum r)) = Inr r"
| "ToString (Some (JStr s)) = Inr s"
| "ToString (Some (JArr xs)) =
     (case collect (map (\<lambda>x. if x = JNull then Inr [] else ToString (Some x)) xs) of
        Inl e \<Rightarrow> Inl e
      | Inr ss \<Rightarrow> Inr (join '','' ss))"
| "ToString (Some (JObj kvs)) =
     (if ''toString'' \<in> fst ` set kvs then Inl TypeError else Inr ''[object Object]'')"

text \<open>\<^verbatim>\<open>String.prototype.toUpperCase\<close> on ASCII: the 26 small letters change.\<close>

definition lower_letters :: string where
  "lower_letters = ''abcdefghijklmnopqrstuvwxyz''"

definition upper_letters :: string where
  "upper_letters = ''ABCDEFGHIJKLMNOPQRSTUVWXYZ''"

definition upper_char :: "char \<Rightarrow> char" where
  "upper_char c =
     (case map_of (zip lower_letters upper_letters) c of Some u \<Rightarrow> u | None \<Rightarrow> c)"

definition toUpperCase :: "string \<Rightarrow> string" where
  "toUpperCase s = map upper_char s"

section \<open>The network and the process state\<close>

record request =
  http_method :: string
  url :: string
  headers :: "(string \<times> string) list"

text \<open>
  What \<^verbatim>\<open>fetch\<close> resolves to: the status, and what \<^verbatim>\<open>response.json()\<close> gives
  (\<open>None\<close> when it rejects, the body being no JSON).
\<close>

record response =
  status :: nat
  json_body :: "json option"

datatype fetch_outcome = Rejects | Resolves response

type_synonym network = "request \<Rightarrow> fetch_outcome"

text \<open>\<^verbatim>\<open>response.ok\<close>: the status is in the range 200 to 299.\<close>

definition ok :: "response \<Rightarrow> bool" where
  "ok r = (200 \<le> status r \<and> status r \<le> 299)"

text \<open>The effects of a call: the requests sent and the errors written to the console.\<close>

record world =
  sent :: "request list"
  console :: "error list"

section \<open>The program\<close>

definition NWS_API_BASE :: string where
  "NWS_API_BASE = ''https://api.weather.gov/''"

definition USER_AGENT :: string where
  "USER_AGENT = ''weather-app/1.0''"

text \<open>The argument of the one \<^verbatim>\<open>fetch(url, { headers })\<close>; \<^verbatim>\<open>fetch\<close> defaults to GET.\<close>

definition nws_request :: "string \<Rightarrow> request" where
  "nws_request u =
     \<lparr>http_method = ''GET'', url = u,
      headers = [(''User-Agent'', USER_AGENT), (''accept'', ''application/geo+json'')]\<rparr>"

text \<open>
  \<^verbatim>\<open>makeNWSRequest\<close>: the \<^verbatim>\<open>try\<close> block is a computation that may throw; the
  \<^verbatim>\<open>catch\<close> logs the error and returns \<^verbatim>\<open>null\<close>.
\<close>

definition makeNWSRequest :: "network \<Rightarrow> string \<Rightarrow> world \<Rightarrow> json \<times> world" where
  "makeNWSRequest net u w =
     (let w1 = w\<lparr>sent := sent w @ [nws_request u]\<rparr>;
          attempt =
            (case net (nws_request u) of
               Rejects \<Rightarrow> Inl FetchError
             | Resolves r \<Rightarrow>
                 if \<not> ok r then Inl (HttpError (status r))
                 else (case json_body r of None \<Rightarrow> Inl SyntaxError | Some v \<Rightarrow> Inr v))
      in case attempt of
           Inr v \<Rightarrow> (v, w1)
         | Inl e \<Rightarrow> (JNull, w1\<lparr>console := console w1 @ [e]\<rparr>))"

text \<open>One template literal of \<^verbatim>\<open>formatAlert\<close>: \<^verbatim>\<open>`label${props.field || "dflt"}`\<close>.\<close>

definition alert_line :: "string \<Rightarrow> jsval \<Rightarrow> string \<Rightarrow> string \<Rightarrow> error + string" where
  "alert_line label props field dflt =
     (case Get props field of
        Inl e \<Rightarrow> Inl e
      | Inr v \<Rightarrow>
          (case ToString (lor v (Some (JStr dflt))) of
             Inl e \<Rightarrow> Inl e
           | Inr s \<Rightarrow> Inr (label @ s)))"

definition formatAlert :: "json \<Rightarrow> error + string" where
  "formatAlert feature =
     (case Get (Some feature) ''properties'' of
        Inl e \<Rightarrow> Inl e
      | Inr props \<Rightarrow>
          (case collect
                  [alert_line ''event: '' props ''event'' ''Unknown Event'',
                   alert_line ''area: '' props ''areaDesc'' ''Unknown Area'',
                   alert_line ''severity: '' props ''severity'' ''Unknown Severity'',
                   alert_line ''status: '' props ''status'' ''Unknown Status'',
                   alert_line ''headline: '' props ''headline'' ''Unknown Headline''] of
             Inl e \<Rightarrow> Inl e
           | Inr ls \<Rightarrow> Inr (join [nl] ls)))"

record content_block =
  type' :: string
  text' :: string

record tool_result =
  content :: "content_block list"

abbreviation text_result :: "string \<Rightarrow> tool_result" where
  "text_result t \<equiv> \<lparr>content = [\<lparr>type' = ''text'', text' = t\<rparr>]\<rparr>"

text \<open>
  \<^verbatim>\<open>features.length === 0\<close> on a truthy value: an array or a string has its length, an
  object its own \<^verbatim>\<open>length\<close> property if any, anything else \<^verbatim>\<open>undefined\<close>.
\<close>

fun length_is_zero :: "jsval \<Rightarrow> bool" where
  "length_is_zero (Some (JArr xs)) = (xs = [])"
| "length_is_zero (Some (JStr s)) = (s = [])"
| "length_is_zero (Some (JObj kvs)) = (map_of kvs ''length'' = Some (JNum ''0''))"
| "length_is_zero v = False"

text \<open>
  \<^verbatim>\<open>features.map(formatAlert)\<close>: only an array has a callable \<^verbatim>\<open>map\<close>; on any other
  truthy value the call throws a TypeError.
\<close>

fun map_formatAlert :: "jsval \<Rightarrow> error + string list" where
  "map_formatAlert (Some (JArr xs)) = collect (map formatAlert xs)"
| "map_formatAlert v = Inl TypeError"

definition alertsUrl :: "string \<Rightarrow> string" where
  "alertsUrl state = NWS_API_BASE @ ''/alerts?area='' @ toUpperCase state"

text \<open>
  The \<^verbatim>\<open>get-alerts\<close> handler. \<open>Inl\<close> is an exception leaving the handler (its promise
  rejects), which the protocol layer reports as an error result.
\<close>

definition handler :: "network \<Rightarrow> string \<Rightarrow> world \<Rightarrow> (error + tool_result) \<times> world" where
  "handler net state w =
     (let stateCode = toUpperCase state;
          (alertsData, w1) = makeNWSRequest net (alertsUrl state) w
      in if \<not> truthy (Some alertsData)
         then (Inr (text_result ''Failed to retrieve alerts. Please try again later.''), w1)
         else (case Get (Some alertsData) ''features'' of
                 Inl e \<Rightarrow> (Inl e, w1)
               | Inr f \<Rightarrow>
                   (let features = lor f (Some (JArr []))
                    in if length_is_zero features
                       then (Inr (text_result ''No alerts found for the given state.''), w1)
                       else (case map_formatAlert features of
                               Inl e \<Rightarrow> (Inl e, w1)
                             | Inr formattedAlerts \<Rightarrow>
                                 (Inr (text_result
                                    (''Active Alerts in '' @ stateCode @ '':'' @ [nl]
                                       @ join [nl, nl] formattedAlerts)), w1)))))"

text \<open>The declared schema of the argument: \<^verbatim>\<open>z.string().length(2)\<close>.\<close>

definition state_schema :: "jsval \<Rightarrow> bool" where
  "state_schema v = (case v of Some (JStr s) \<Rightarrow> length s = 2 | _ \<Rightarrow> False)"

text \<open>
  Modelled from the spec: the protocol layer's dispatch of a tool call (the SDK behind
  \<^verbatim>\<open>server.tool\<close>, not part of \<^verbatim>\<open>src/\<close>). The spec: the argument is validated
  against the declared schema before the handler is invoked; invalid input is rejected
  by the protocol layer itself and never reaches the handler.
\<close>

definition call_tool :: "network \<Rightarrow> json \<Rightarrow> world \<Rightarrow> (error + tool_result) \<times> world" where
  "call_tool net args w =
     (case args of
        JObj kvs \<Rightarrow>
          (case map_of kvs ''state'' of
             Some (JStr s) \<Rightarrow>
               if state_schema (Some (JStr s)) then handler net s w else (Inl InvalidParams, w)
           | _ \<Rightarrow> (Inl InvalidParams, w))
      | _ \<Rightarrow> (Inl InvalidParams, w))"

section \<open>The declared shapes and the words of the specification\<close>

text \<open>
  The interfaces \<^verbatim>\<open>AlertFeature\<close> and \<^verbatim>\<open>AlertsResponse\<close> as predicates on parsed JSON:
  a feature is an object with a \<^verbatim>\<open>properties\<close> object whose five fields are absent or
  strings; a response is an object whose \<^verbatim>\<open>features\<close>, if present, is an array of
  features. Other keys are free.
\<close>

definition alert_fields :: "string list" where
  "alert_fields = [''event'', ''areaDesc'', ''severity'', ''status'', ''headline'']"

fun optional_string :: "jsval \<Rightarrow> bool" where
  "optional_string None = True"
| "optional_string (Some (JStr s)) = True"
| "optional_string (Some v) = False"

definition is_AlertProps :: "(string \<times> json) list \<Rightarrow> bool" where
  "is_AlertProps ps = list_all (\<lambda>k. optional_string (map_of ps k)) alert_fields"

definition is_AlertFeature :: "json \<Rightarrow> bool" where
  "is_AlertFeature f =
     (case f of
        JObj kvs \<Rightarrow>
          (case map_of kvs ''properties'' of Some (JObj ps) \<Rightarrow> is_AlertProps ps | _ \<Rightarrow> False)
      | _ \<Rightarrow> False)"

definition is_AlertsResponse :: "json \<Rightarrow> bool" where
  "is_AlertsResponse body =
     (case body of
        JObj kvs \<Rightarrow>
          (case map_of kvs ''features'' of
             None \<Rightarrow> True
           | Some (JArr fs) \<Rightarrow> list_all is_AlertFeature fs
           | _ \<Rightarrow> False)
      | _ \<Rightarrow> False)"

text \<open>The upstream fetch fails: network error, non-success status, or unparsable body.\<close>

fun fetch_fails :: "fetch_outcome \<Rightarrow> bool" where
  "fetch_fails Rejects = True"
| "fetch_fails (Resolves r) = (\<not> ok r \<or> json_body r = None)"

text \<open>
  The value the specification shows for a field: the field's text, or the default when
  the field is missing or empty.
\<close>

definition field_text :: "(string \<times> json) list \<Rightarrow> string \<Rightarrow> string \<Rightarrow> string" where
  "field_text ps k dflt =
     (case map_of ps k of Some (JStr s) \<Rightarrow> (if s = [] then dflt else s) | _ \<Rightarrow> dflt)"

text \<open>The lines of a text, split at every newline.\<close>

fun lines_of :: "string \<Rightarrow> string list" where
  "lines_of [] = [[]]"
| "lines_of (c # cs) =
     (if c = nl then [] # lines_of cs
      else (case lines_of cs of [] \<Rightarrow> [[c]] | l # ls \<Rightarrow> (c # l) # ls))"

text \<open>Blocks with exactly one blank line between consecutive blocks and none after the last.\<close>

fun blank_line_separated :: "string list \<Rightarrow> string" where
  "blank_line_separated [] = []"
| "blank_line_separated [b] = b"
| "blank_line_separated (b # c # bs) = b @ [nl, nl] @ blank_line_separated (c # bs)"

text \<open>The properties of an object with one field removed.\<close>

definition without :: "string \<Rightarrow> (string \<times> json) list \<Rightarrow> (string \<times> json) list" where
  "without k ps = filter (\<lambda>kv. fst kv \<noteq> k) ps"

text \<open>A code unit in the ASCII range.\<close>

definition ascii :: "char \<Rightarrow> bool" where
  "ascii c = (\<not> digit7 c)"

text \<open>A process that has sent and logged nothing yet.\<close>

abbreviation fresh :: world where
  "fresh \<equiv> \<lparr>sent = [], console = []\<rparr>"

text \<open>A network that gives every request the same outcome.\<close>

definition answers :: "fetch_outcome \<Rightarrow> network" where
  "answers out = (\<lambda>req. out)"

section \<open>Lemmas on the built-ins\<close>

lemma join_fold_acc:
  "snd (fold (\<lambda>x (k, R). (Suc k, (if 0 < k then R @ sep else R) @ x)) xs (Suc k, R))
     = R @ concat (map (\<lambda>x. sep @ x) xs)"
  by (induction xs arbitrary: k R) simp_all

lemma join_Nil: "join sep [] = []"
  by (simp add: join_def)

lemma join_Cons: "join sep (x # xs) = x @ concat (map (\<lambda>y. sep @ y) xs)"
  by (simp add: join_def join_fold_acc)

lemma join_blank_line: "join [nl, nl] bs = blank_line_separated bs"
  by (induction bs rule: blank_line_separated.induct) (simp_all add: join_Nil join_Cons)

lemma collect_Inr: "collect (map Inr xs) = Inr xs"
  by (induction xs) simp_all

lemma lines_of_single: "nl \<notin> set a \<Longrightarrow> lines_of a = [a]"
  by (induction a) (auto split: list.splits)

lemma lines_of_append: "nl \<notin> set a \<Longrightarrow> lines_of (a @ nl # rest) = a # lines_of rest"
  by (induction a) (auto split: list.splits)

section \<open>Lemmas on the program\<close>

lemmas program_defs =
  handler_def makeNWSRequest_def nws_request_def alertsUrl_def NWS_API_BASE_def
  USER_AGENT_def toUpperCase_def upper_char_def lower_letters_def upper_letters_def
  ok_def formatAlert_def alert_line_def lor_def join_def answers_def Let_def

lemma makeNWSRequest_fails:
  "fetch_fails (net (nws_request u)) \<Longrightarrow> fst (makeNWSRequest net u w) = JNull"
  by (cases "net (nws_request u)") (auto simp: makeNWSRequest_def Let_def split: option.splits)

lemma makeNWSRequest_succeeds:
  "net (nws_request u) = Resolves r \<Longrightarrow> ok r \<Longrightarrow> json_body r = Some body \<Longrightarrow>
     makeNWSRequest net u w = (body, w\<lparr>sent := sent w @ [nws_request u]\<rparr>)"
  by (simp add: makeNWSRequest_def Let_def)

lemma makeNWSRequest_sent:
  "sent (snd (makeNWSRequest net u w)) = sent w @ [nws_request u]"
  by (auto simp: makeNWSRequest_def Let_def split: fetch_outcome.splits option.splits)

lemma handler_null:
  "fst (makeNWSRequest net (alertsUrl state) w) = JNull \<Longrightarrow>
     fst (handler net state w) =
       Inr (text_result ''Failed to retrieve alerts. Please try again later.'')"
  by (cases "makeNWSRequest net (alertsUrl state) w") (simp add: handler_def)

lemma alert_line_field:
  "optional_string (map_of ps k) \<Longrightarrow>
     alert_line label (Some (JObj ps)) k dflt = Inr (label @ field_text ps k dflt)"
  by (cases "map_of ps k" rule: optional_string.cases)
     (simp_all add: alert_line_def field_text_def lor_def)

lemma formatAlert_shape:
  assumes "map_of kvs ''properties'' = Some (JObj ps)" and "is_AlertProps ps"
  shows "formatAlert (JObj kvs) =
           Inr (''event: '' @ field_text ps ''event'' ''Unknown Event'' @ nl #
                ''area: '' @ field_text ps ''areaDesc'' ''Unknown Area'' @ nl #
                ''severity: '' @ field_text ps ''severity'' ''Unknown Severity'' @ nl #
                ''status: '' @ field_text ps ''status'' ''Unknown Status'' @ nl #
                ''headline: '' @ field_text ps ''headline'' ''Unknown Headline'')"
  using assms
  by (simp add: formatAlert_def is_AlertProps_def alert_fields_def alert_line_field join_Cons)

lemma handler_on_body:
  assumes "net (nws_request (alertsUrl state)) = Resolves r" and "ok r"
    and "json_body r = Some body" and "truthy (Some body)"
    and "Get (Some body) ''features'' = Inr f"
  shows "fst (handler net state w) =
           (let features = lor f (Some (JArr []))
            in if length_is_zero features
               then Inr (text_result ''No alerts found for the given state.'')
               else (case map_formatAlert features of
                       Inl e \<Rightarrow> Inl e
                     | Inr formattedAlerts \<Rightarrow>
                         Inr (text_result
                           (''Active Alerts in '' @ toUpperCase state @ '':'' @ [nl]
                              @ join [nl, nl] formattedAlerts))))"
  using assms
  by (simp add: handler_def makeNWSRequest_succeeds Let_def split: sum.splits)

lemma handler_sent:
  "sent (snd (handler net state w)) = sent w @ [nws_request (alertsUrl state)]"
proof (cases "makeNWSRequest net (alertsUrl state) w")
  case (Pair d w1)
  with makeNWSRequest_sent [of net "alertsUrl state" w]
  have "sent w1 = sent w @ [nws_request (alertsUrl state)]"
    by simp
  with Pair show ?thesis
    by (simp add: handler_def Let_def split: sum.splits)
qed

lemma handler_text_cases:
  assumes "fst (handler net state w) = Inr (text_result t)"
  shows "t = ''Failed to retrieve alerts. Please try again later.'' \<or>
         t = ''No alerts found for the given state.'' \<or>
         (\<exists>rest. t = ''Active Alerts in '' @ toUpperCase state @ '':'' @ nl # rest)"
proof (cases "makeNWSRequest net (alertsUrl state) w")
  case (Pair d w1)
  show ?thesis
  proof (cases "truthy (Some d)")
    case False
    with Pair assms show ?thesis
      by (simp add: handler_def)
  next
    case True
    then obtain f where f: "Get (Some d) ''features'' = Inr f"
      by (cases d) auto
    show ?thesis
    proof (cases "length_is_zero (lor f (Some (JArr [])))")
      case True
      with Pair \<open>truthy (Some d)\<close> f assms show ?thesis
        by (simp add: handler_def)
    next
      case False
      show ?thesis
      proof (cases "map_formatAlert (lor f (Some (JArr [])))")
        case (Inl e)
        with Pair \<open>truthy (Some d)\<close> f False assms show ?thesis
          by (simp add: handler_def)
      next
        case (Inr bs)
        with Pair \<open>truthy (Some d)\<close> f False assms
        have "t = ''Active Alerts in '' @ toUpperCase state @ '':'' @ [nl] @ join [nl, nl] bs"
          by (simp add: handler_def)
        then show ?thesis
          by simp
      qed
    qed
  qed
qed

lemma formatAlert_feature:
  assumes "is_AlertFeature f"
  shows "\<exists>b. formatAlert f = Inr b"
proof -
  from assms obtain kvs where f: "f = JObj kvs"
    by (cases f) (simp_all add: is_AlertFeature_def)
  with assms obtain v where v: "map_of kvs ''properties'' = Some v"
    by (cases "map_of kvs ''properties''") (simp_all add: is_AlertFeature_def)
  with assms f obtain ps where "v = JObj ps" and "is_AlertProps ps"
    by (cases v) (simp_all add: is_AlertFeature_def)
  with f v show ?thesis
    by (simp add: formatAlert_shape)
qed

lemma collect_features:
  "list_all is_AlertFeature fs \<Longrightarrow> \<exists>bs. collect (map formatAlert fs) = Inr bs"
  by (induction fs) (auto dest: formatAlert_feature)

lemma map_of_without: "map_of (without k ps) k' = (if k' = k then None else map_of ps k')"
  by (induction ps) (auto simp: without_def)

lemma field_text_without:
  "map_of ps k = Some (JStr []) \<Longrightarrow> field_text (without k ps) k' dflt = field_text ps k' dflt"
  by (simp add: field_text_def map_of_without)

lemma is_AlertProps_without: "is_AlertProps ps \<Longrightarrow> is_AlertProps (without k ps)"
  by (simp add: is_AlertProps_def alert_fields_def map_of_without)

lemma upper_char_not_lower: "upper_char c \<notin> set lower_letters"
  by (auto simp: upper_char_def lower_letters_def upper_letters_def)

lemma upper_char_cases:
  "upper_char c = c \<or> (c, upper_char c) \<in> set (zip lower_letters upper_letters)"
  by (auto simp: upper_char_def dest: map_of_SomeD split: option.splits)

section \<open>Fetch failures\<close>

text \<open>
  C1. Whenever the upstream fetch fails (the \<^verbatim>\<open>fetch\<close> promise rejects, the status is
  not a success status, or the body does not parse), \<^verbatim>\<open>makeNWSRequest\<close> returns
  \<^verbatim>\<open>null\<close> and the handler returns the text
  "Failed to retrieve alerts. Please try again later.", the same for each cause.
\<close>

theorem get_alerts_fetch_failure:
  assumes "fetch_fails (net (nws_request (alertsUrl state)))"
  shows "fst (makeNWSRequest net (alertsUrl state) w) = JNull \<and>
         fst (handler net state w) =
           Inr (text_result ''Failed to retrieve alerts. Please try again later.'')"
  using assms by (simp add: makeNWSRequest_fails handler_null)

text \<open>The three causes at the state \<^verbatim>\<open>CA\<close>: a rejected fetch, status 503, a body that is no JSON.\<close>

theorem get_alerts_fetch_failure_witness:
  "list_all
     (\<lambda>out. fetch_fails (answers out (nws_request (alertsUrl ''CA''))) \<and>
        fst (makeNWSRequest (answers out) (alertsUrl ''CA'') fresh) = JNull \<and>
        fst (handler (answers out) ''CA'' fresh) =
          Inr (text_result ''Failed to retrieve alerts. Please try again later.''))
     [Rejects,
      Resolves \<lparr>status = 503, json_body = Some (JObj [])\<rparr>,
      Resolves \<lparr>status = 200, json_body = None\<rparr>]"
  using get_alerts_fetch_failure [of "answers Rejects" "''CA''" fresh]
        get_alerts_fetch_failure
          [of "answers (Resolves \<lparr>status = 503, json_body = Some (JObj [])\<rparr>)" "''CA''" fresh]
        get_alerts_fetch_failure
          [of "answers (Resolves \<lparr>status = 200, json_body = None\<rparr>)" "''CA''" fresh]
  by (simp add: ok_def answers_def)

section \<open>Formatting one alert\<close>

text \<open>
  C2. For every alert feature (an object of the declared shape), \<^verbatim>\<open>formatAlert\<close> returns
  five \<open>label: value\<close> entries joined by single newlines, in the order event, area (from
  \<^verbatim>\<open>areaDesc\<close>), severity, status, headline; a missing field shows its
  \<open>Unknown ...\<close> default. When no value holds a newline these are exactly the five lines
  of the output.
\<close>

theorem formatAlert_five_lines:
  assumes "feature = JObj kvs"
    and "map_of kvs ''properties'' = Some (JObj ps)"
    and "is_AlertProps ps"
  shows "\<exists>out. formatAlert feature = Inr out \<and>
           (let e = field_text ps ''event'' ''Unknown Event'';
                a = field_text ps ''areaDesc'' ''Unknown Area'';
                s = field_text ps ''severity'' ''Unknown Severity'';
                t = field_text ps ''status'' ''Unknown Status'';
                h = field_text ps ''headline'' ''Unknown Headline''
            in out = ''event: '' @ e @ nl # ''area: '' @ a @ nl # ''severity: '' @ s @ nl #
                     ''status: '' @ t @ nl # ''headline: '' @ h
               \<and> (nl \<notin> set (e @ a @ s @ t @ h) \<longrightarrow>
                    lines_of out =
                      [''event: '' @ e, ''area: '' @ a, ''severity: '' @ s,
                       ''status: '' @ t, ''headline: '' @ h]))
           \<and> (\<forall>k dflt. map_of ps k = None \<longrightarrow> field_text ps k dflt = dflt)"
  using assms
  by (simp add: formatAlert_shape Let_def lines_of_append lines_of_single field_text_def)

text \<open>A feature with no headline: the last line is \<open>headline: Unknown Headline\<close>.\<close>

theorem formatAlert_five_lines_witness:
  "formatAlert
     (JObj [(''id'', JStr ''urn:1''),
            (''properties'',
             JObj [(''event'', JStr ''Flood Warning''), (''areaDesc'', JStr ''Marin''),
                   (''severity'', JStr ''Severe''), (''status'', JStr ''Actual'')])])
   = Inr (''event: Flood Warning'' @ nl # ''area: Marin'' @ nl # ''severity: Severe'' @ nl #
          ''status: Actual'' @ nl # ''headline: Unknown Headline'')
   \<and> lines_of (''event: Flood Warning'' @ nl # ''area: Marin'' @ nl # ''severity: Severe'' @ nl #
                ''status: Actual'' @ nl # ''headline: Unknown Headline'')
     = [''event: Flood Warning'', ''area: Marin'', ''severity: Severe'', ''status: Actual'',
        ''headline: Unknown Headline'']"
  using formatAlert_five_lines
          [of "JObj [(''id'', JStr ''urn:1''),
                     (''properties'',
                      JObj [(''event'', JStr ''Flood Warning''), (''areaDesc'', JStr ''Marin''),
                            (''severity'', JStr ''Severe''), (''status'', JStr ''Actual'')])]"
              "[(''id'', JStr ''urn:1''),
                (''properties'',
                 JObj [(''event'', JStr ''Flood Warning''), (''areaDesc'', JStr ''Marin''),
                       (''severity'', JStr ''Severe''), (''status'', JStr ''Actual'')])]"
              "[(''event'', JStr ''Flood Warning''), (''areaDesc'', JStr ''Marin''),
                (''severity'', JStr ''Severe''), (''status'', JStr ''Actual'')]"]
  by (auto simp: is_AlertProps_def alert_fields_def field_text_def Let_def)

text \<open>
  C9. The default also replaces a field that is present and empty, the fallback being
  chosen by truthiness: with \<^verbatim>\<open>event\<close> the empty string the output starts with the line
  \<open>event: Unknown Event\<close>, and for each of the five fields the output is the one of the
  same feature with that field absent.
\<close>

theorem formatAlert_empty_field:
  assumes "feature = JObj kvs"
    and "map_of kvs ''properties'' = Some (JObj ps)"
    and "is_AlertProps ps"
  shows "(map_of ps ''event'' = Some (JStr []) \<longrightarrow>
            (\<exists>rest. formatAlert feature = Inr (''event: Unknown Event'' @ nl # rest)))
         \<and> (\<forall>k\<in>set alert_fields. map_of ps k = Some (JStr []) \<longrightarrow>
               formatAlert feature = formatAlert (JObj [(''properties'', JObj (without k ps))]))"
proof (intro conjI impI ballI)
  assume "map_of ps ''event'' = Some (JStr [])"
  then show "\<exists>rest. formatAlert feature = Inr (''event: Unknown Event'' @ nl # rest)"
    using assms by (simp add: formatAlert_shape field_text_def)
next
  fix k assume "k \<in> set alert_fields" and e: "map_of ps k = Some (JStr [])"
  have "formatAlert (JObj [(''properties'', JObj (without k ps))]) = formatAlert (JObj kvs)"
    using assms(2,3) e
    by (simp add: formatAlert_shape [of _ "without k ps"] formatAlert_shape [of kvs ps]
          is_AlertProps_without field_text_without)
  then show "formatAlert feature = formatAlert (JObj [(''properties'', JObj (without k ps))])"
    using assms(1) by simp
qed

text \<open>An empty \<^verbatim>\<open>event\<close> beside a headline.\<close>

theorem formatAlert_empty_field_witness:
  "formatAlert (JObj [(''properties'', JObj [(''event'', JStr []), (''headline'', JStr ''Hi'')])])
     = Inr (''event: Unknown Event'' @ nl # ''area: Unknown Area'' @ nl #
            ''severity: Unknown Severity'' @ nl # ''status: Unknown Status'' @ nl #
            ''headline: Hi'')
   \<and> formatAlert (JObj [(''properties'', JObj [(''event'', JStr []), (''headline'', JStr ''Hi'')])])
     = formatAlert (JObj [(''properties'', JObj [(''headline'', JStr ''Hi'')])])"
  using formatAlert_empty_field
          [of "JObj [(''properties'', JObj [(''event'', JStr []), (''headline'', JStr ''Hi'')])]"
              "[(''properties'', JObj [(''event'', JStr []), (''headline'', JStr ''Hi'')])]"
              "[(''event'', JStr []), (''headline'', JStr ''Hi'')]"]
  by (auto simp: is_AlertProps_def alert_fields_def without_def program_defs)

section \<open>The three outcomes of the handler\<close>

text \<open>
  C3. On a successful response (success status, body a JSON object) whose \<^verbatim>\<open>features\<close>
  is the empty array, or is absent, the handler returns the text
  "No alerts found for the given state.".
\<close>

theorem get_alerts_no_features:
  assumes "net (nws_request (alertsUrl state)) = Resolves r" and "ok r"
    and "json_body r = Some (JObj kvs)"
    and "map_of kvs ''features'' = None \<or> map_of kvs ''features'' = Some (JArr [])"
  shows "fst (handler net state w) =
           Inr (text_result ''No alerts found for the given state.'')"
  using assms handler_on_body [of net state r "JObj kvs" "map_of kvs ''features''" w]
  by (auto simp: lor_def)

text \<open>The body \<^verbatim>\<open>{"features": []}\<close>, and a body with no \<^verbatim>\<open>features\<close>.\<close>

theorem get_alerts_no_features_witness:
  "fst (handler
          (answers (Resolves \<lparr>status = 200, json_body = Some (JObj [(''features'', JArr [])])\<rparr>))
          ''CA'' fresh)
     = Inr (text_result ''No alerts found for the given state.'')
   \<and> fst (handler
          (answers (Resolves \<lparr>status = 200,
                               json_body = Some (JObj [(''type'', JStr ''FeatureCollection'')])\<rparr>))
          ''CA'' fresh)
     = Inr (text_result ''No alerts found for the given state.'')"
  using get_alerts_no_features
          [of "answers (Resolves \<lparr>status = 200, json_body = Some (JObj [(''features'', JArr [])])\<rparr>)"
              "''CA''" "\<lparr>status = 200, json_body = Some (JObj [(''features'', JArr [])])\<rparr>"
              "[(''features'', JArr [])]" fresh]
        get_alerts_no_features
          [of "answers (Resolves \<lparr>status = 200,
                                   json_body = Some (JObj [(''type'', JStr ''FeatureCollection'')])\<rparr>)"
              "''CA''"
              "\<lparr>status = 200, json_body = Some (JObj [(''type'', JStr ''FeatureCollection'')])\<rparr>"
              "[(''type'', JStr ''FeatureCollection'')]" fresh]
  by (simp add: ok_def answers_def)

text \<open>
  C4. On a successful response with one or more features, whose blocks \<^verbatim>\<open>formatAlert\<close>
  gives in response order, the handler returns the header line
  \<open>Active Alerts in <STATE>:\<close>, a newline, and the blocks with exactly one blank line
  between consecutive blocks and nothing after the last; for one feature, the header, a
  newline and its block.
\<close>

theorem get_alerts_blocks:
  assumes "net (nws_request (alertsUrl state)) = Resolves r" and "ok r"
    and "json_body r = Some (JObj kvs)"
    and "map_of kvs ''features'' = Some (JArr fs)"
    and "fs \<noteq> []"
    and "map formatAlert fs = map Inr blocks"
  shows "fst (handler net state w) =
           Inr (text_result (''Active Alerts in '' @ toUpperCase state @ '':'' @ [nl]
                               @ blank_line_separated blocks))
         \<and> (\<forall>b. blocks = [b] \<longrightarrow>
               fst (handler net state w) =
                 Inr (text_result (''Active Alerts in '' @ toUpperCase state @ '':'' @ [nl] @ b)))"
proof -
  from assms handler_on_body [of net state r "JObj kvs" "Some (JArr fs)" w]
  have "fst (handler net state w) =
           Inr (text_result (''Active Alerts in '' @ toUpperCase state @ '':'' @ [nl]
                               @ blank_line_separated blocks))"
    by (simp add: lor_def collect_Inr join_blank_line)
  then show ?thesis by auto
qed

text \<open>Two features, the second with no \<^verbatim>\<open>areaDesc\<close>, for the state \<^verbatim>\<open>tx\<close>.\<close>

theorem get_alerts_blocks_witness:
  "fst (handler
          (answers (Resolves \<lparr>status = 200, json_body = Some (JObj [(''features'', JArr
             [JObj [(''properties'', JObj [(''event'', JStr ''Heat''), (''areaDesc'', JStr ''Bexar''),
                      (''severity'', JStr ''Minor''), (''status'', JStr ''Actual''),
                      (''headline'', JStr ''Hot'')])],
              JObj [(''properties'', JObj [(''event'', JStr ''Wind'')])]])])\<rparr>))
          ''tx'' fresh)
     = Inr (text_result
         (''Active Alerts in TX:'' @ nl #
          ''event: Heat'' @ nl # ''area: Bexar'' @ nl # ''severity: Minor'' @ nl #
          ''status: Actual'' @ nl # ''headline: Hot'' @ nl # nl #
          ''event: Wind'' @ nl # ''area: Unknown Area'' @ nl # ''severity: Unknown Severity'' @ nl #
          ''status: Unknown Status'' @ nl # ''headline: Unknown Headline''))"
  using get_alerts_blocks
          [of "answers (Resolves \<lparr>status = 200, json_body = Some (JObj [(''features'', JArr
                 [JObj [(''properties'', JObj [(''event'', JStr ''Heat''), (''areaDesc'', JStr ''Bexar''),
                          (''severity'', JStr ''Minor''), (''status'', JStr ''Actual''),
                          (''headline'', JStr ''Hot'')])],
                  JObj [(''properties'', JObj [(''event'', JStr ''Wind'')])]])])\<rparr>)"
              "''tx''"
              "\<lparr>status = 200, json_body = Some (JObj [(''features'', JArr
                 [JObj [(''properties'', JObj [(''event'', JStr ''Heat''), (''areaDesc'', JStr ''Bexar''),
                          (''severity'', JStr ''Minor''), (''status'', JStr ''Actual''),
                          (''headline'', JStr ''Hot'')])],
                  JObj [(''properties'', JObj [(''event'', JStr ''Wind'')])]])])\<rparr>"
              "[(''features'', JArr
                 [JObj [(''properties'', JObj [(''event'', JStr ''Heat''), (''areaDesc'', JStr ''Bexar''),
                          (''severity'', JStr ''Minor''), (''status'', JStr ''Actual''),
                          (''headline'', JStr ''Hot'')])],
                  JObj [(''properties'', JObj [(''event'', JStr ''Wind'')])]])]"
              "[JObj [(''properties'', JObj [(''event'', JStr ''Heat''), (''areaDesc'', JStr ''Bexar''),
                        (''severity'', JStr ''Minor''), (''status'', JStr ''Actual''),
                        (''headline'', JStr ''Hot'')])],
                JObj [(''properties'', JObj [(''event'', JStr ''Wind'')])]]"
              "[''event: Heat'' @ nl # ''area: Bexar'' @ nl # ''severity: Minor'' @ nl #
                  ''status: Actual'' @ nl # ''headline: Hot'',
                ''event: Wind'' @ nl # ''area: Unknown Area'' @ nl #
                  ''severity: Unknown Severity'' @ nl # ''status: Unknown Status'' @ nl #
                  ''headline: Unknown Headline'']"
              fresh]
  by (simp add: ok_def answers_def formatAlert_def alert_line_def lor_def join_def
        toUpperCase_def upper_char_def lower_letters_def upper_letters_def)

section \<open>The request\<close>

text \<open>
  C5. The handler sends one GET with the headers \<open>User-Agent: weather-app/1.0\<close> and
  \<open>accept: application/geo+json\<close>. Its URL for the state \<^verbatim>\<open>CA\<close> is
  \<open>https://api.weather.gov//alerts?area=CA\<close>: the base ends with a slash and the template
  adds another, so the URL is not \<open>https://api.weather.gov/alerts?area=CA\<close>.
\<close>

theorem alerts_request_double_slash:
  "sent (snd (handler net ''CA'' fresh)) =
     [\<lparr>http_method = ''GET'', url = ''https://api.weather.gov//alerts?area=CA'',
       headers = [(''User-Agent'', ''weather-app/1.0''), (''accept'', ''application/geo+json'')]\<rparr>]
   \<and> ''https://api.weather.gov//alerts?area=CA'' \<noteq> ''https://api.weather.gov/alerts?area=CA''"
  by (simp add: handler_sent nws_request_def alertsUrl_def NWS_API_BASE_def USER_AGENT_def
        toUpperCase_def upper_char_def lower_letters_def upper_letters_def)

text \<open>
  C6. For every two-character state argument, whatever the case of its letters, the state
  code in the URL of the request and in the header line of the output is the upper-cased
  argument: it has no small letter, and each of its characters is the argument's or the
  capital of the argument's small letter.
\<close>

theorem state_code_upper_cased:
  assumes "length state = 2" and "list_all ascii state"
  shows "sent (snd (handler net state w)) =
           sent w @ [nws_request (NWS_API_BASE @ ''/alerts?area='' @ toUpperCase state)]
         \<and> (\<forall>t. fst (handler net state w) = Inr (text_result t) \<longrightarrow>
               t = ''Failed to retrieve alerts. Please try again later.'' \<or>
               t = ''No alerts found for the given state.'' \<or>
               (\<exists>rest. t = ''Active Alerts in '' @ toUpperCase state @ '':'' @ nl # rest))
         \<and> length (toUpperCase state) = 2
         \<and> set (toUpperCase state) \<inter> set lower_letters = {}
         \<and> (\<forall>i<2. toUpperCase state ! i = state ! i \<or>
               (state ! i, toUpperCase state ! i) \<in> set (zip lower_letters upper_letters))"
proof (intro conjI allI impI)
  show "sent (snd (handler net state w)) =
          sent w @ [nws_request (NWS_API_BASE @ ''/alerts?area='' @ toUpperCase state)]"
    by (simp add: handler_sent alertsUrl_def)
next
  fix t assume "fst (handler net state w) = Inr (text_result t)"
  then show "t = ''Failed to retrieve alerts. Please try again later.'' \<or>
             t = ''No alerts found for the given state.'' \<or>
             (\<exists>rest. t = ''Active Alerts in '' @ toUpperCase state @ '':'' @ nl # rest)"
    by (rule handler_text_cases)
next
  show "length (toUpperCase state) = 2"
    using assms(1) by (simp add: toUpperCase_def)
next
  show "set (toUpperCase state) \<inter> set lower_letters = {}"
    using upper_char_not_lower by (auto simp: toUpperCase_def)
next
  fix i :: nat assume "i < 2"
  with assms(1) have "toUpperCase state ! i = upper_char (state ! i)"
    by (simp add: toUpperCase_def)
  with upper_char_cases [of "state ! i"]
  show "toUpperCase state ! i = state ! i \<or>
        (state ! i, toUpperCase state ! i) \<in> set (zip lower_letters upper_letters)"
    by simp
qed

text \<open>The argument \<^verbatim>\<open>ca\<close>: the request asks for the area \<^verbatim>\<open>CA\<close> and the header reads \<open>Active Alerts in CA:\<close>.\<close>

theorem state_code_upper_cased_witness:
  "length ''ca'' = 2 \<and> list_all ascii ''ca''
   \<and> toUpperCase ''ca'' = ''CA''
   \<and> map url (sent (snd (handler
        (answers (Resolves \<lparr>status = 200, json_body = Some (JObj [(''features'', JArr
           [JObj [(''properties'', JObj [])]])])\<rparr>)) ''ca'' fresh)))
      = [NWS_API_BASE @ ''/alerts?area=CA'']
   \<and> (\<exists>rest. fst (handler
        (answers (Resolves \<lparr>status = 200, json_body = Some (JObj [(''features'', JArr
           [JObj [(''properties'', JObj [])]])])\<rparr>)) ''ca'' fresh)
      = Inr (text_result (''Active Alerts in CA:'' @ nl # rest)))"
  using state_code_upper_cased
          [of "''ca''"
              "answers (Resolves \<lparr>status = 200, json_body = Some (JObj [(''features'', JArr
                 [JObj [(''properties'', JObj [])]])])\<rparr>)"
              fresh]
  by (simp add: ascii_def program_defs)

section \<open>Exceptions leaving the handler\<close>

text \<open>
  C7 as stated: the handler is total on every upstream response, entries of
  \<^verbatim>\<open>features\<close> outside the declared shape included. It is not: on the body
  \<^verbatim>\<open>{"features": [{}]}\<close> the entry has no \<^verbatim>\<open>properties\<close>, \<^verbatim>\<open>props.event\<close> reads a
  property of \<^verbatim>\<open>undefined\<close>, and the TypeError leaves the handler, which has no
  \<^verbatim>\<open>try\<close> of its own.
\<close>

theorem get_alerts_throws_counterexample:
  "fst (handler
          (answers (Resolves \<lparr>status = 200,
                               json_body = Some (JObj [(''features'', JArr [JObj []])])\<rparr>))
          ''CA'' fresh) = Inl TypeError"
  by (simp add: program_defs)

text \<open>
  C7, amended. The handler returns a text result whenever the fetch fails (the failure is
  caught inside \<^verbatim>\<open>makeNWSRequest\<close>) or succeeds with a body of the declared
  \<^verbatim>\<open>AlertsResponse\<close> shape: \<^verbatim>\<open>features\<close> absent, or an array of objects each with a
  \<^verbatim>\<open>properties\<close> object whose five fields are absent or strings.
\<close>

theorem get_alerts_total_on_declared_shape:
  assumes "fetch_fails (net (nws_request (alertsUrl state))) \<or>
           (\<exists>r body. net (nws_request (alertsUrl state)) = Resolves r \<and> ok r \<and>
                      json_body r = Some body \<and> is_AlertsResponse body)"
  shows "\<exists>t. fst (handler net state w) = Inr (text_result t)"
  using assms
proof
  assume "fetch_fails (net (nws_request (alertsUrl state)))"
  then show ?thesis
    by (auto simp: makeNWSRequest_fails handler_null)
next
  assume "\<exists>r body. net (nws_request (alertsUrl state)) = Resolves r \<and> ok r \<and>
                      json_body r = Some body \<and> is_AlertsResponse body"
  then obtain r body where r: "net (nws_request (alertsUrl state)) = Resolves r" "ok r"
      "json_body r = Some body" and shape: "is_AlertsResponse body"
    by blast
  from shape obtain kvs where body: "body = JObj kvs"
    by (cases body) (simp_all add: is_AlertsResponse_def)
  have g: "Get (Some body) ''features'' = Inr (map_of kvs ''features'')"
    by (simp add: body)
  have t: "truthy (Some body)"
    by (simp add: body)
  show ?thesis
  proof (cases "map_of kvs ''features''")
    case None
    with handler_on_body [of net state r body "map_of kvs ''features''" w] r t g show ?thesis
      by (simp add: lor_def)
  next
    case (Some v)
    with shape body obtain fs where v: "v = JArr fs" and fs: "list_all is_AlertFeature fs"
      by (cases v) (simp_all add: is_AlertsResponse_def)
    from collect_features [OF fs] obtain bs where "collect (map formatAlert fs) = Inr bs" ..
    with handler_on_body [of net state r body "map_of kvs ''features''" w] r t g Some v
    show ?thesis
      by (simp add: lor_def)
  qed
qed

text \<open>A response of the declared shape whose one feature has only an \<^verbatim>\<open>event\<close>.\<close>

theorem get_alerts_total_on_declared_shape_witness:
  "is_AlertsResponse
     (JObj [(''features'', JArr [JObj [(''properties'', JObj [(''event'', JStr ''Wind'')])]])])
   \<and> (\<exists>t. fst (handler
        (answers (Resolves \<lparr>status = 200, json_body = Some (JObj [(''features'', JArr
           [JObj [(''properties'', JObj [(''event'', JStr ''Wind'')])]])])\<rparr>))
        ''CA'' fresh) = Inr (text_result t))"
  using get_alerts_total_on_declared_shape
          [of "answers (Resolves \<lparr>status = 200, json_body = Some (JObj [(''features'', JArr
                 [JObj [(''properties'', JObj [(''event'', JStr ''Wind'')])]])])\<rparr>)"
              "''CA''" fresh]
  by (simp add: is_AlertsResponse_def is_AlertFeature_def is_AlertProps_def alert_fields_def
        ok_def answers_def)

section \<open>Validation of the argument\<close>

text \<open>
  C8. The declared schema accepts exactly the strings of two characters. A call whose
  \<^verbatim>\<open>state\<close> is missing, is no string, or has another length is rejected with the
  process state unchanged, so before any request is sent; otherwise the handler runs
  with that two-character string.
\<close>

theorem schema_guards_handler:
  "(\<not> (\<exists>s. Get (Some args) ''state'' = Inr (Some (JStr s)) \<and> length s = 2) \<longrightarrow>
      call_tool net args w = (Inl InvalidParams, w))
   \<and> (\<forall>s. Get (Some args) ''state'' = Inr (Some (JStr s)) \<and> length s = 2 \<longrightarrow>
         call_tool net args w = handler net s w)
   \<and> (\<forall>v. state_schema v = (\<exists>s. v = Some (JStr s) \<and> length s = 2))"
proof (intro conjI allI impI)
  assume "\<not> (\<exists>s. Get (Some args) ''state'' = Inr (Some (JStr s)) \<and> length s = 2)"
  then show "call_tool net args w = (Inl InvalidParams, w)"
    by (cases args)
       (auto simp: call_tool_def state_schema_def split: option.splits json.splits)
next
  fix s assume "Get (Some args) ''state'' = Inr (Some (JStr s)) \<and> length s = 2"
  then show "call_tool net args w = handler net s w"
    by (cases args) (auto simp: call_tool_def state_schema_def)
next
  fix v show "state_schema v = (\<exists>s. v = Some (JStr s) \<and> length s = 2)"
    by (auto simp: state_schema_def split: option.splits json.splits)
qed

text \<open>Three characters, a number and no argument are rejected; \<^verbatim>\<open>ca\<close> reaches the handler.\<close>

theorem schema_guards_handler_witness:
  "call_tool (answers Rejects) (JObj [(''state'', JStr ''CAL'')]) fresh = (Inl InvalidParams, fresh)
   \<and> call_tool (answers Rejects) (JObj [(''state'', JNum ''12'')]) fresh = (Inl InvalidParams, fresh)
   \<and> call_tool (answers Rejects) (JObj []) fresh = (Inl InvalidParams, fresh)
   \<and> call_tool (answers Rejects) (JObj [(''state'', JStr ''ca'')]) fresh
       = handler (answers Rejects) ''ca'' fresh"
  using schema_guards_handler [of "JObj [(''state'', JStr ''CAL'')]" "answers Rejects" fresh]
        schema_guards_handler [of "JObj [(''state'', JNum ''12'')]" "answers Rejects" fresh]
        schema_guards_handler [of "JObj []" "answers Rejects" fresh]
        schema_guards_handler [of "JObj [(''state'', JStr ''ca'')]" "answers Rejects" fresh]
  by simp

section \<open>The shape of every result\<close>

text \<open>
  C10. Every value the handler returns, on each of its three paths, has a content array
  of exactly one block, and the block's type is \<open>text\<close>.
\<close>

theorem get_alerts_content_shape:
  assumes "fst (handler net state w) = Inr r"
  shows "\<exists>t. content r = [\<lparr>type' = ''text'', text' = t\<rparr>]"
  using assms
  by (auto simp: handler_def Let_def split: prod.splits if_splits sum.splits)

text \<open>The three paths: a rejected fetch, no features, one feature.\<close>

theorem get_alerts_content_shape_witness:
  "list_all
     (\<lambda>out. case fst (handler (answers out) ''CA'' fresh) of
               Inl e \<Rightarrow> False
             | Inr r \<Rightarrow> length (content r) = 1 \<and> map type' (content r) = [''text''])
     [Rejects,
      Resolves \<lparr>status = 200, json_body = Some (JObj [(''features'', JArr [])])\<rparr>,
      Resolves \<lparr>status = 200, json_body = Some (JObj [(''features'', JArr
         [JObj [(''properties'', JObj [(''event'', JStr ''Wind'')])]])])\<rparr>]"
proof -
  have a: "fst (handler (answers Rejects) ''CA'' fresh) =
             Inr (text_result ''Failed to retrieve alerts. Please try again later.'')"
    by (simp add: program_defs)
  have b: "fst (handler
                  (answers (Resolves \<lparr>status = 200,
                                       json_body = Some (JObj [(''features'', JArr [])])\<rparr>))
                  ''CA'' fresh) =
             Inr (text_result ''No alerts found for the given state.'')"
    by (simp add: program_defs)
  have c: "fst (handler
                  (answers (Resolves \<lparr>status = 200, json_body = Some (JObj [(''features'', JArr
                     [JObj [(''properties'', JObj [(''event'', JStr ''Wind'')])]])])\<rparr>))
                  ''CA'' fresh) =
             Inr (text_result
               (''Active Alerts in CA:'' @ nl # ''event: Wind'' @ nl # ''area: Unknown Area'' @ nl #
                ''severity: Unknown Severity'' @ nl # ''status: Unknown Status'' @ nl #
                ''headline: Unknown Headline''))"
    by (simp add: program_defs)
  from get_alerts_content_shape [OF a] get_alerts_content_shape [OF b]
       get_alerts_content_shape [OF c] a b c
  show ?thesis
    by simp
qed

end
